theory Spec2Isabelle
  imports Complex_Main "HOL-Library.Word"
begin

section \<open>JavaScript values used by the plugin\<close>

text \<open>
  A JavaScript string is a sequence of UTF-16 code units; \<open>length\<close>, \<open>includes\<close> and
  \<open>trim\<close> all work on code units. Numbers are modelled by their real value: the plugin
  only tests them for truthiness and compares them (\<open>NaN\<close> and the infinities cannot come
  out of a JSON document and are left out).
\<close>

type_synonym codeunit = "16 word"
type_synonym jsstring = "codeunit list"

definition js :: "string \<Rightarrow> jsstring" where
  "js s = map of_char s"

text \<open>\<open>a || d\<close> on an optional string: undefined and the empty string are falsy.\<close>

definition or_string :: "jsstring option \<Rightarrow> jsstring \<Rightarrow> jsstring" where
  "or_string a d = (case a of None \<Rightarrow> d | Some s \<Rightarrow> if s = [] then d else s)"

text \<open>\<open>a || d\<close> on an optional number: undefined and 0 are falsy.\<close>

definition or_number :: "real option \<Rightarrow> real \<Rightarrow> real" where
  "or_number a d = (case a of None \<Rightarrow> d | Some x \<Rightarrow> if x = 0 then d else x)"

text \<open>\<open>String.prototype.includes\<close>: the pattern occurs as a contiguous run.\<close>

fun startsWith :: "'a list \<Rightarrow> 'a list \<Rightarrow> bool" where
  "startsWith xs [] = True"
| "startsWith [] (p # ps) = False"
| "startsWith (x # xs) (p # ps) = (x = p \<and> startsWith xs ps)"

fun includes_js :: "'a list \<Rightarrow> 'a list \<Rightarrow> bool" where
  "includes_js [] p = (p = [])"
| "includes_js (x # xs) p = (startsWith (x # xs) p \<or> includes_js xs p)"

text \<open>
  \<open>String.prototype.trim\<close> strips WhiteSpace and LineTerminator code units from both
  ends: TAB, LF, VT, FF, CR, SPACE, NBSP, U+1680, U+2000..U+200A, U+2028, U+2029,
  U+202F, U+205F, U+3000 and U+FEFF.
\<close>

definition isWhiteSpace :: "codeunit \<Rightarrow> bool" where
  "isWhiteSpace c =
     (c = 9 \<or> c = 10 \<or> c = 11 \<or> c = 12 \<or> c = 13 \<or> c = 32 \<or> c = 160 \<or> c = 5760
      \<or> (8192 \<le> c \<and> c \<le> 8202) \<or> c = 8232 \<or> c = 8233 \<or> c = 8239 \<or> c = 8287
      \<or> c = 12288 \<or> c = 65279)"

definition trim :: "jsstring \<Rightarrow> jsstring" where
  "trim s = rev (dropWhile isWhiteSpace (rev (dropWhile isWhiteSpace s)))"

text \<open>\<open>Array.prototype.join\<close>.\<close>

fun join :: "jsstring \<Rightarrow> jsstring list \<Rightarrow> jsstring" where
  "join sep [] = []"
| "join sep [x] = x"
| "join sep (x # y # ys) = x @ sep @ join sep (y # ys)"

section \<open>Data model (src/index.ts, lines 3-32)\<close>

record Mem0Config =
  baseUrl :: jsstring
  userId :: jsstring
  autoCapture :: bool
  autoRecall :: bool
  recallLimit :: real
  recallThreshold :: real

text \<open>
  The host's plugin configuration before parsing: every field may be missing.
\<close>

record RawConfig =
  v_baseUrl :: "jsstring option"
  v_userId :: "jsstring option"
  v_autoCapture :: "bool option"
  v_autoRecall :: "bool option"
  v_recallLimit :: "real option"
  v_recallThreshold :: "real option"

record Memory =
  id_m :: jsstring
  memory :: jsstring
  score :: "real option"
  metadata :: "(jsstring \<times> jsstring) list option"

record AddResult =
  result_id :: jsstring
  result_memory :: jsstring
  result_event :: jsstring

text \<open>\<open>AddResponse\<close>: \<open>results\<close> stands for the nested \<open>result.results\<close>.\<close>

record AddResponse =
  success :: bool
  results :: "AddResult list"

section \<open>Configuration parsing (lines 34-46)\<close>

definition empty_object :: RawConfig where
  "empty_object = \<lparr>v_baseUrl = None, v_userId = None, v_autoCapture = None,
     v_autoRecall = None, v_recallLimit = None, v_recallThreshold = None\<rparr>"

definition parse :: "RawConfig option \<Rightarrow> Mem0Config" where
  "parse val =
     (let v = (case val of None \<Rightarrow> empty_object | Some r \<Rightarrow> r) in
      \<lparr>baseUrl = or_string (v_baseUrl v) (js ''http://127.0.0.1:8420''),
       userId = or_string (v_userId v) (js ''openclaw''),
       autoCapture = (v_autoCapture v \<noteq> Some False),
       autoRecall = (v_autoRecall v \<noteq> Some False),
       recallLimit = or_number (v_recallLimit v) 5,
       recallThreshold = or_number (v_recallThreshold v) (4 / 10)\<rparr>)"

section \<open>The HTTP transport and the console\<close>

text \<open>
  What \<open>fetch\<close> is called with. The URL and the JSON body are kept structured:
  \<^item> \<open>GetHealth b\<close> is \<open>GET b/health\<close>;
  \<^item> \<open>GetSearch b q u n\<close> is \<open>GET b/memories/search?query=q&user_id=u&limit=n\<close>;
  \<^item> \<open>PostMemories b body\<close> is \<open>POST b/memories\<close> with the JSON of \<open>body\<close>;
  \<^item> \<open>GetMemories b u\<close> is \<open>GET b/memories?user_id=u\<close>;
  \<^item> \<open>DeleteMemory b i\<close> is \<open>DELETE b/memories/i\<close>.
  In the body of a POST, \<open>body_metadata = Some a\<close> is \<open>metadata: {agent_id: a}\<close> and
  \<open>None\<close> is \<open>metadata: undefined\<close>, which \<open>JSON.stringify\<close> leaves out.
\<close>

record AddBody =
  body_content :: jsstring
  user_id :: jsstring
  body_metadata :: "jsstring option"

datatype request =
    GetHealth jsstring
  | GetSearch jsstring jsstring jsstring real
  | PostMemories jsstring AddBody
  | GetMemories jsstring jsstring
  | DeleteMemory jsstring jsstring

text \<open>
  The JSON documents the code reads, by the interface it casts them to. In a
  \<open>SearchResponse\<close> the \<open>memories\<close> field may be missing (the code guards it with
  \<open>|| []\<close>).
\<close>

datatype payload =
    HealthData jsstring
  | SearchData "Memory list option"
  | AddData AddResponse

text \<open>A response; \<open>json = None\<close> is a body that \<open>response.json()\<close> rejects.\<close>

record response =
  status :: nat
  statusText :: jsstring
  json :: "payload option"

definition ok :: "response \<Rightarrow> bool" where
  "ok r = (200 \<le> status r \<and> status r \<le> 299)"

text \<open>
  The server and the network: given the requests issued so far and the next request,
  \<open>fetch\<close> either rejects (\<open>None\<close>) or resolves to a response.
\<close>

type_synonym network = "request list \<Rightarrow> request \<Rightarrow> response option"

datatype js_error = FetchRejected | JsonRejected | Error jsstring

datatype level = LOG | WARN | ERROR

datatype log_arg = Status nat | Text "jsstring option" | Thrown js_error

text \<open>One console call: its method, the fixed text and the value printed with it.\<close>

datatype log_entry = Console level jsstring log_arg

record world =
  requests :: "request list"
  console :: "log_entry list"

definition fetch :: "network \<Rightarrow> request \<Rightarrow> world \<Rightarrow> response option \<times> world" where
  "fetch net req w = (net (requests w) req, w\<lparr>requests := requests w @ [req]\<rparr>)"

definition console_call :: "level \<Rightarrow> jsstring \<Rightarrow> log_arg \<Rightarrow> world \<Rightarrow> world" where
  "console_call l msg a w = w\<lparr>console := console w @ [Console l msg a]\<rparr>"

section \<open>The client (lines 48-181)\<close>

record Mem0Client =
  config :: Mem0Config
  healthChecked :: bool

definition new_client :: "Mem0Config \<Rightarrow> Mem0Client" where
  "new_client cfg = \<lparr>config = cfg, healthChecked = False\<rparr>"

text \<open>
  \<open>ensureHealthy\<close> (lines 56-75). The assignment \<open>this.healthChecked = true\<close> is the
  last statement of the \<open>try\<close> block: it is reached after a response of any status whose
  body, when the status is 2xx, parses; a rejected \<open>fetch\<close> and a rejected
  \<open>response.json()\<close> go to the \<open>catch\<close> block, which only logs.
\<close>

definition ensureHealthy :: "network \<Rightarrow> Mem0Client \<Rightarrow> world \<Rightarrow> Mem0Client \<times> world" where
  "ensureHealthy net c w =
     (if healthChecked c then (c, w)
      else
        (case fetch net (GetHealth (baseUrl (config c))) w of
           (None, w1) \<Rightarrow>
             (c, console_call WARN (js ''[memory-mem0] Could not connect to Mem0 server:'')
                   (Thrown FetchRejected) w1)
         | (Some r, w1) \<Rightarrow>
             if \<not> ok r then
               (c\<lparr>healthChecked := True\<rparr>,
                console_call WARN (js ''[memory-mem0] Health check failed: '') (Status (status r)) w1)
             else
               (case json r of
                  None \<Rightarrow>
                    (c, console_call WARN (js ''[memory-mem0] Could not connect to Mem0 server:'')
                          (Thrown JsonRejected) w1)
                | Some d \<Rightarrow>
                    (c\<lparr>healthChecked := True\<rparr>,
                     console_call LOG (js ''[memory-mem0] Connected to Mem0 server: '')
                       (Text (case d of HealthData s \<Rightarrow> Some s | _ \<Rightarrow> None)) w1))))"

text \<open>
  The \<open>try\<close> block shared by the four operations: \<open>fetch\<close>, the \<open>response.ok\<close> test that
  throws \<open>new Error(what + statusText)\<close>, and \<open>response.json()\<close> where the operation
  reads the body.
\<close>

definition checked :: "jsstring \<Rightarrow> response option \<Rightarrow> js_error + response" where
  "checked what res =
     (case res of
        None \<Rightarrow> Inl FetchRejected
      | Some r \<Rightarrow> if \<not> ok r then Inl (Error (what @ statusText r)) else Inr r)"

definition read_json :: "jsstring \<Rightarrow> response option \<Rightarrow> js_error + payload" where
  "read_json what res =
     (case checked what res of
        Inl e \<Rightarrow> Inl e
      | Inr r \<Rightarrow> (case json r of None \<Rightarrow> Inl JsonRejected | Some d \<Rightarrow> Inr d))"

text \<open>\<open>data.memories || []\<close>.\<close>

definition memories_of :: "payload \<Rightarrow> Memory list" where
  "memories_of d = (case d of SearchData (Some ms) \<Rightarrow> ms | _ \<Rightarrow> [])"

text \<open>\<open>search\<close> (lines 77-105).\<close>

definition search ::
  "network \<Rightarrow> Mem0Client \<Rightarrow> jsstring \<Rightarrow> real option \<Rightarrow> world \<Rightarrow> Memory list \<times> Mem0Client \<times> world" where
  "search net c query limit w =
     (case ensureHealthy net c w of (c1, w1) \<Rightarrow>
        (case fetch net (GetSearch (baseUrl (config c1)) query (userId (config c1))
                           (or_number limit (recallLimit (config c1)))) w1 of
           (res, w2) \<Rightarrow>
             (case read_json (js ''Search failed: '') res of
                Inr d \<Rightarrow> (memories_of d, c1, w2)
              | Inl e \<Rightarrow> ([], c1, console_call ERROR (js ''[memory-mem0] Search error:'') (Thrown e) w2))))"

text \<open>\<open>add\<close> (lines 107-132); \<open>None\<close> is the \<open>null\<close> result.\<close>

definition add ::
  "network \<Rightarrow> Mem0Client \<Rightarrow> jsstring \<Rightarrow> jsstring option \<Rightarrow> world \<Rightarrow> payload option \<times> Mem0Client \<times> world" where
  "add net c content agentId w =
     (case ensureHealthy net c w of (c1, w1) \<Rightarrow>
        (case fetch net (PostMemories (baseUrl (config c1))
                           \<lparr>body_content = content, user_id = userId (config c1),
                            body_metadata = (case agentId of None \<Rightarrow> None
                                             | Some a \<Rightarrow> if a = [] then None else Some a)\<rparr>) w1 of
           (res, w2) \<Rightarrow>
             (case read_json (js ''Add failed: '') res of
                Inr d \<Rightarrow> (Some d, c1, w2)
              | Inl e \<Rightarrow> (None, c1, console_call ERROR (js ''[memory-mem0] Add error:'') (Thrown e) w2))))"

text \<open>\<open>list\<close> (lines 134-160).\<close>

definition list_memories :: "network \<Rightarrow> Mem0Client \<Rightarrow> world \<Rightarrow> Memory list \<times> Mem0Client \<times> world" where
  "list_memories net c w =
     (case ensureHealthy net c w of (c1, w1) \<Rightarrow>
        (case fetch net (GetMemories (baseUrl (config c1)) (userId (config c1))) w1 of
           (res, w2) \<Rightarrow>
             (case read_json (js ''List failed: '') res of
                Inr d \<Rightarrow> (memories_of d, c1, w2)
              | Inl e \<Rightarrow> ([], c1, console_call ERROR (js ''[memory-mem0] List error:'') (Thrown e) w2))))"

text \<open>\<open>delete\<close> (lines 162-180): the body of the response is not read.\<close>

definition delete :: "network \<Rightarrow> Mem0Client \<Rightarrow> jsstring \<Rightarrow> world \<Rightarrow> bool \<times> Mem0Client \<times> world" where
  "delete net c i w =
     (case ensureHealthy net c w of (c1, w1) \<Rightarrow>
        (case fetch net (DeleteMemory (baseUrl (config c1)) i) w1 of
           (res, w2) \<Rightarrow>
             (case checked (js ''Delete failed: '') res of
                Inr r \<Rightarrow> (True, c1, w2)
              | Inl e \<Rightarrow> (False, c1, console_call ERROR (js ''[memory-mem0] Delete error:'') (Thrown e) w2))))"

section \<open>The store tool (lines 265-291)\<close>

text \<open>
  \<open>!result || !result.success\<close>: a \<open>null\<close> result, a document without a \<open>success\<close>
  field and \<open>success: false\<close> all give the failure text.
\<close>

definition memory_store ::
  "network \<Rightarrow> Mem0Client \<Rightarrow> jsstring \<Rightarrow> jsstring option \<Rightarrow> world \<Rightarrow> jsstring \<times> Mem0Client \<times> world" where
  "memory_store net c content agent_id w =
     (case add net c content agent_id w of
        (result, c1, w1) \<Rightarrow>
          (case result of
             Some (AddData r) \<Rightarrow>
               if success r
               then (js ''Stored in memory: '' @ join (js '', '') (map result_memory (results r)), c1, w1)
               else (js ''Failed to store memory.'', c1, w1)
           | _ \<Rightarrow> (js ''Failed to store memory.'', c1, w1)))"

section \<open>Lifecycle hooks (lines 383-425)\<close>

text \<open>
  \<open>register\<close> installs the \<open>before_agent_start\<close> handler when \<open>config.autoRecall\<close>
  holds and the \<open>agent_end\<close> handler when \<open>config.autoCapture\<close> holds; below are the
  two handlers. Both use the registered client, whose configuration is the parsed one.
\<close>

text \<open>\<open>(m.score || 0)\<close>.\<close>

definition score_or_0 :: "Memory \<Rightarrow> real" where
  "score_or_0 m = or_number (score m) 0"

definition relevant :: "real \<Rightarrow> Memory list \<Rightarrow> Memory list" where
  "relevant threshold memories = filter (\<lambda>m. score_or_0 m \<ge> threshold) memories"

text \<open>
  One line of the context block. \<open>toFixed\<close> stands for \<open>Number.prototype.toFixed(2)\<close>, the
  platform's number formatting; \<open>m.score?.toFixed(2)\<close> of an absent score is
  \<open>undefined\<close> and prints as such.
\<close>

definition memory_line :: "(real \<Rightarrow> jsstring) \<Rightarrow> Memory \<Rightarrow> jsstring" where
  "memory_line toFixed m =
     js ''- '' @ memory m @ js '' [score: ''
       @ (case score m of None \<Rightarrow> js ''undefined'' | Some x \<Rightarrow> toFixed x) @ js '']''"

definition context_block :: "(real \<Rightarrow> jsstring) \<Rightarrow> Memory list \<Rightarrow> jsstring" where
  "context_block toFixed ms =
     js ''<relevant-memories>'' @ [10] @ js ''Relevant facts from long-term memory:'' @ [10]
       @ join [10] (map (memory_line toFixed) ms) @ [10] @ js ''</relevant-memories>''"

text \<open>
  The \<open>before_agent_start\<close> handler; \<open>None\<close> is the handler returning nothing, \<open>Some b\<close>
  is \<open>{prependContext: b}\<close>. The event carries an optional prompt.
\<close>

definition before_agent_start ::
  "(real \<Rightarrow> jsstring) \<Rightarrow> network \<Rightarrow> Mem0Client \<Rightarrow> jsstring option \<Rightarrow> world
     \<Rightarrow> jsstring option \<times> Mem0Client \<times> world" where
  "before_agent_start toFixed net c event_prompt w =
     (let prompt = or_string event_prompt [] in
      if trim prompt = [] then (None, c, w)
      else
        (case search net c prompt (Some (recallLimit (config c))) w of
           (memories, c1, w1) \<Rightarrow>
             (let rel = relevant (recallThreshold (config c)) memories in
              if length rel = 0 then (None, c1, w1)
              else (Some (context_block toFixed rel), c1, w1))))"

record message =
  role :: jsstring
  content :: "jsstring option"

text \<open>The tests of the loop body that let a message through to \<open>client.add\<close>.\<close>

definition captured :: "message \<Rightarrow> bool" where
  "captured msg =
     ((role msg = js ''user'' \<or> role msg = js ''assistant'')
      \<and> \<not> includes_js (or_string (content msg) []) (js ''<relevant-memories>'')
      \<and> \<not> length (trim (or_string (content msg) [])) < 50)"

text \<open>The body of the \<open>for\<close> loop of the \<open>agent_end\<close> handler, for one message.\<close>

definition capture_message ::
  "network \<Rightarrow> jsstring option \<Rightarrow> message \<Rightarrow> Mem0Client \<times> world \<Rightarrow> Mem0Client \<times> world" where
  "capture_message net agentId msg cw =
     (if role msg = js ''user'' \<or> role msg = js ''assistant'' then
        (let text = or_string (content msg) [] in
         if includes_js text (js ''<relevant-memories>'') then cw
         else if length (trim text) < 50 then cw
         else snd (add net (fst cw) text agentId (snd cw)))
      else cw)"

text \<open>The \<open>agent_end\<close> handler: \<open>event.messages || []\<close>, then the loop.\<close>

definition agent_end ::
  "network \<Rightarrow> message list option \<Rightarrow> jsstring option \<Rightarrow> Mem0Client \<times> world \<Rightarrow> Mem0Client \<times> world" where
  "agent_end net event_messages event_agentId cw =
     foldl (\<lambda>s msg. capture_message net event_agentId msg s) cw
       (case event_messages of None \<Rightarrow> [] | Some ms \<Rightarrow> ms)"

section \<open>Sequences of client operations\<close>

datatype operation =
    Search jsstring "real option"
  | Add jsstring "jsstring option"
  | List
  | Delete jsstring

definition perform :: "network \<Rightarrow> operation \<Rightarrow> Mem0Client \<times> world \<Rightarrow> Mem0Client \<times> world" where
  "perform net op cw =
     (case op of
        Search q l \<Rightarrow> snd (search net (fst cw) q l (snd cw))
      | Add t a \<Rightarrow> snd (add net (fst cw) t a (snd cw))
      | List \<Rightarrow> snd (list_memories net (fst cw) (snd cw))
      | Delete i \<Rightarrow> snd (delete net (fst cw) i (snd cw)))"

definition perform_all :: "network \<Rightarrow> operation list \<Rightarrow> Mem0Client \<times> world \<Rightarrow> Mem0Client \<times> world" where
  "perform_all net ops cw = foldl (\<lambda>s op. perform net op s) cw ops"

definition start :: "Mem0Config \<Rightarrow> Mem0Client \<times> world" where
  "start cfg = (new_client cfg, \<lparr>requests = [], console = []\<rparr>)"

section \<open>Observations on the trace\<close>

fun is_probe :: "request \<Rightarrow> bool" where
  "is_probe (GetHealth b) = True"
| "is_probe r = False"

fun is_store :: "request \<Rightarrow> bool" where
  "is_store (PostMemories b body) = True"
| "is_store r = False"

definition probes :: "Mem0Client \<times> world \<Rightarrow> nat" where
  "probes cw = length (filter is_probe (requests (snd cw)))"

text \<open>The store calls that a step from \<open>before\<close> to \<open>after\<close> added to the trace.\<close>

definition stores_between :: "Mem0Client \<times> world \<Rightarrow> Mem0Client \<times> world \<Rightarrow> request list" where
  "stores_between before after =
     filter is_store (drop (length (requests (snd before))) (requests (snd after)))"

definition unreachable :: network where
  "unreachable hist req = None"

text \<open>The request that an operation sends after the health check.\<close>

definition request_of :: "Mem0Config \<Rightarrow> operation \<Rightarrow> request" where
  "request_of cfg op =
     (case op of
        Search q l \<Rightarrow> GetSearch (baseUrl cfg) q (userId cfg) (or_number l (recallLimit cfg))
      | Add t a \<Rightarrow> PostMemories (baseUrl cfg)
          \<lparr>body_content = t, user_id = userId cfg,
           body_metadata = (case a of None \<Rightarrow> None | Some x \<Rightarrow> if x = [] then None else Some x)\<rparr>
      | List \<Rightarrow> GetMemories (baseUrl cfg) (userId cfg)
      | Delete i \<Rightarrow> DeleteMemory (baseUrl cfg) i)"

text \<open>
  What \<open>fetch\<close> gives the operation for that request: the health check has run before
  it, so the request comes after whatever the check added to the trace.
\<close>

definition answer :: "network \<Rightarrow> Mem0Client \<Rightarrow> world \<Rightarrow> operation \<Rightarrow> response option" where
  "answer net c w op = net (requests (snd (ensureHealthy net c w))) (request_of (config c) op)"

section \<open>Concrete inputs\<close>

definition ok_response :: "payload option \<Rightarrow> response" where
  "ok_response d = \<lparr>status = 200, statusText = js ''OK'', json = d\<rparr>"

definition two_results :: "Memory list" where
  "two_results =
     [\<lparr>id_m = js ''m1'', memory = js ''Some stored fact'', score = Some (87 / 100), metadata = None\<rparr>,
      \<lparr>id_m = js ''m2'', memory = js ''Another memory'', score = Some (2 / 10), metadata = None\<rparr>]"

text \<open>A server that answers every request with 200 and stores what it is sent as it is.\<close>

fun serve :: "request \<Rightarrow> response" where
  "serve (GetHealth b) = ok_response (Some (HealthData (js ''ok'')))"
| "serve (GetSearch b q u n) = ok_response (Some (SearchData (Some two_results)))"
| "serve (PostMemories b body) =
     ok_response (Some (AddData \<lparr>success = True,
       results = [\<lparr>result_id = js ''m3'', result_memory = body_content body,
                   result_event = js ''ADD''\<rparr>]\<rparr>))"
| "serve (GetMemories b u) = ok_response (Some (SearchData (Some two_results)))"
| "serve (DeleteMemory b i) = ok_response None"

definition reachable :: network where
  "reachable hist req = Some (serve req)"

text \<open>A server that answers every request with status 500.\<close>

definition failing :: network where
  "failing hist req =
     Some \<lparr>status = 500, statusText = js ''Internal Server Error'', json = None\<rparr>"

text \<open>A transport that rejects the first POST and is \<open>reachable\<close> otherwise.\<close>

definition first_store_rejected :: network where
  "first_store_rejected hist req =
     (if is_store req \<and> filter is_store hist = [] then None else Some (serve req))"

text \<open>Messages of a conversation: 50, 49, 104 and 60 code units long.\<close>

definition user_says :: "jsstring \<Rightarrow> message" where
  "user_says t = \<lparr>role = js ''user'', content = Some t\<rparr>"

definition fifty :: jsstring where
  "fifty = js ''The build uses a monorepo with pnpm workspaces ok.''"

definition forty_nine :: jsstring where
  "forty_nine = js ''The build uses a monorepo with pnpm workspaces ok''"

definition recalled :: jsstring where
  "recalled = js ''<relevant-memories> Relevant facts from long-term memory: the build uses a monorepo </relevant-memories>''"

definition sixty :: jsstring where
  "sixty = js ''Please remember that the deploy script needs Node 20 to run.''"

text \<open>
  \<open>toFixed(2)\<close> on the range of scores, \<open>0 \<le> x < 9.995\<close>: the nearest multiple of
  0.01, the larger one on a tie, with one digit before the point.
\<close>

definition digit :: "nat \<Rightarrow> codeunit" where
  "digit d = of_nat (48 + d)"

definition fixed2 :: "real \<Rightarrow> jsstring" where
  "fixed2 x =
     (let n = nat \<lfloor>x * 100 + 1 / 2\<rfloor>
      in [digit (n div 100), 46, digit (n div 10 mod 10), digit (n mod 10)])"

text \<open>A search result without a score, and a server whose search returns it first.\<close>

definition unscored :: Memory where
  "unscored = \<lparr>id_m = js ''m0'', memory = js ''A fact without a score'', score = None,
     metadata = None\<rparr>"

definition unscored_server :: network where
  "unscored_server hist req =
     (case req of
        GetSearch b q u n \<Rightarrow> Some (ok_response (Some (SearchData (Some (unscored # two_results)))))
      | _ \<Rightarrow> Some (serve req))"

text \<open>
  A supplied configuration:
  \<open>{baseUrl: "http://mem0.internal:9000", userId: "", autoCapture: false, recallLimit: 0,
  recallThreshold: 0}\<close>.
\<close>

definition zeroed :: RawConfig where
  "zeroed = \<lparr>v_baseUrl = Some (js ''http://mem0.internal:9000''), v_userId = Some [],
     v_autoCapture = Some False, v_autoRecall = None,
     v_recallLimit = Some 0, v_recallThreshold = Some 0\<rparr>"

text \<open>
  A supplied configuration with a threshold below 0, \<open>{recallThreshold: -1}\<close>, and a
  server whose search returns the result without a score and nothing else.
\<close>

definition below_zero :: RawConfig where
  "below_zero = \<lparr>v_baseUrl = None, v_userId = None, v_autoCapture = None,
     v_autoRecall = None, v_recallLimit = None, v_recallThreshold = Some (- 1)\<rparr>"

definition only_unscored :: network where
  "only_unscored hist req =
     (case req of
        GetSearch b q u n \<Rightarrow> Some (ok_response (Some (SearchData (Some [unscored]))))
      | _ \<Rightarrow> Some (serve req))"

section \<open>Basic facts about the client\<close>

lemma ensureHealthy_checked: "healthChecked c \<Longrightarrow> ensureHealthy net c w = (c, w)"
  by (simp add: ensureHealthy_def)

lemma ensureHealthy_result:
  assumes "ensureHealthy net c w = (c1, w1)"
  shows "config c1 = config c"
    and "requests w1 = requests w @ (if healthChecked c then [] else [GetHealth (baseUrl (config c))])"
    and "healthChecked c \<Longrightarrow> healthChecked c1"
  using assms
  by (auto simp: ensureHealthy_def fetch_def console_call_def split: option.splits if_splits)

lemma ensureHealthy_unreachable:
  "\<not> healthChecked c \<Longrightarrow> ensureHealthy unreachable c w = (c1, w1) \<Longrightarrow> \<not> healthChecked c1"
  by (auto simp: ensureHealthy_def fetch_def unreachable_def)

lemma perform_result:
  assumes "perform net op (c, w) = (c2, w2)"
  shows "config c2 = config c"
    and "requests w2 =
     requests w @ (if healthChecked c then [] else [GetHealth (baseUrl (config c))])
       @ [request_of (config c) op]"
    and "healthChecked c \<Longrightarrow> healthChecked c2"
    and "ensureHealthy net c w = (c1, w1) \<Longrightarrow> healthChecked c2 = healthChecked c1"
proof -
  obtain d v where h: "ensureHealthy net c w = (d, v)"
    by (cases "ensureHealthy net c w")
  note e = ensureHealthy_result [OF h]
  from assms h e(1) show "config c2 = config c"
    by (cases op)
       (auto simp: perform_def search_def add_def list_memories_def delete_def fetch_def
             split: sum.splits)
  from assms h e(1,2) show "requests w2 =
     requests w @ (if healthChecked c then [] else [GetHealth (baseUrl (config c))])
       @ [request_of (config c) op]"
    by (cases op)
       (auto simp: perform_def search_def add_def list_memories_def delete_def fetch_def
                   console_call_def request_of_def
             split: sum.splits)
  from assms h show "ensureHealthy net c w = (c1, w1) \<Longrightarrow> healthChecked c2 = healthChecked c1"
    by (cases op)
       (auto simp: perform_def search_def add_def list_memories_def delete_def fetch_def
             split: sum.splits)
  from assms h e(3) show "healthChecked c \<Longrightarrow> healthChecked c2"
    by (cases op)
       (auto simp: perform_def search_def add_def list_memories_def delete_def fetch_def
             split: sum.splits)
qed

lemma is_probe_request_of: "\<not> is_probe (request_of cfg op)"
  by (cases op) (simp_all add: request_of_def)

section \<open>The health probe\<close>

text \<open>
  Which probes set the flag: one that is answered, with any status, unless the status is
  2xx and the body is not JSON. A probe that \<open>fetch\<close> rejects leaves it unset.
\<close>

lemma ensureHealthy_sets_flag:
  assumes "net (requests w) (GetHealth (baseUrl (config c))) = Some r"
      and "\<not> ok r \<or> json r \<noteq> None"
  shows "healthChecked (fst (ensureHealthy net c w))"
  using assms by (auto simp: ensureHealthy_def fetch_def)

lemma ensureHealthy_leaves_flag:
  assumes "\<not> healthChecked c"
      and "net (requests w) (GetHealth (baseUrl (config c))) = None
           \<or> (\<exists>r. net (requests w) (GetHealth (baseUrl (config c))) = Some r \<and> ok r \<and> json r = None)"
  shows "\<not> healthChecked (fst (ensureHealthy net c w))"
  using assms by (auto simp: ensureHealthy_def fetch_def)

text \<open>
  Once the flag is set, no operation probes again: this is the memoisation that the
  guard at the head of \<open>ensureHealthy\<close> gives.
\<close>

lemma memoized_step:
  assumes "healthChecked (fst cw)"
  shows "healthChecked (fst (perform net op cw)) \<and> probes (perform net op cw) = probes cw"
proof -
  obtain c w where cw: "cw = (c, w)" by (cases cw)
  obtain c2 w2 where p: "perform net op (c, w) = (c2, w2)" by (cases "perform net op (c, w)")
  from assms cw perform_result(2,3) [OF p] show ?thesis
    by (simp add: cw p probes_def is_probe_request_of)
qed

lemma memoized_once_checked:
  "healthChecked (fst cw) \<Longrightarrow> probes (perform_all net ops cw) = probes cw"
  unfolding perform_all_def
proof (induction ops arbitrary: cw)
  case Nil
  then show ?case by simp
next
  case (Cons op ops)
  from memoized_step [OF Cons.prems, of net op] Cons.IH [of "perform net op cw"]
  show ?case by simp
qed

text \<open>
  The flag is set only on the paths that reach the end of the \<open>try\<close> block. While
  \<open>fetch\<close> rejects it stays unset, and every operation sends a probe of its own.
\<close>

lemma unreachable_step:
  assumes "\<not> healthChecked (fst cw)"
  shows "\<not> healthChecked (fst (perform unreachable op cw))
         \<and> probes (perform unreachable op cw) = Suc (probes cw)"
proof -
  obtain c w where cw: "cw = (c, w)" by (cases cw)
  obtain c2 w2 where p: "perform unreachable op (c, w) = (c2, w2)"
    by (cases "perform unreachable op (c, w)")
  obtain c1 w1 where h: "ensureHealthy unreachable c w = (c1, w1)"
    by (cases "ensureHealthy unreachable c w")
  from assms cw have n: "\<not> healthChecked c" by simp
  from ensureHealthy_unreachable [OF n h] perform_result(4) [OF p h]
  have "\<not> healthChecked c2" by simp
  moreover from n perform_result(2) [OF p]
  have "probes (c2, w2) = Suc (probes (c, w))"
    by (simp add: probes_def is_probe_request_of)
  ultimately show ?thesis by (simp add: cw p)
qed

lemma unreachable_probes_every_operation:
  "\<not> healthChecked (fst cw) \<Longrightarrow>
     probes (perform_all unreachable ops cw) = probes cw + length ops"
  unfolding perform_all_def
proof (induction ops arbitrary: cw)
  case Nil
  then show ?case by simp
next
  case (Cons op ops)
  from unreachable_step [OF Cons.prems, of op] Cons.IH [of "perform unreachable op cw"]
  show ?case by simp
qed

text \<open>
  C1. The claim is that the probe runs at most once per client, the flag being set after
  the first probe whether it succeeded or failed. On a fresh client with the default
  configuration and a transport that rejects every \<open>fetch\<close>, a search followed by a
  delete sends two probes, and the flag is still unset afterwards.
\<close>

theorem probe_repeats_when_unreachable:
  "probes (perform_all unreachable [Search (js ''a'') None, Delete (js ''b'')] (start (parse None))) = 2
   \<and> \<not> healthChecked (fst (perform_all unreachable [Search (js ''a'') None, Delete (js ''b'')]
          (start (parse None))))"
  by (simp add: perform_all_def perform_def search_def delete_def ensureHealthy_def fetch_def
        unreachable_def start_def new_client_def console_call_def probes_def read_json_def
        checked_def)

section \<open>Failures of search and delete\<close>

text \<open>
  C5. For every query and every limit, when the transport rejects the search request or
  the server answers it with a status outside 200-299, \<open>search\<close> returns the empty list.
  The model has no other outcome for \<open>search\<close> than a list: the \<open>catch\<close> block turns
  every exception of the \<open>try\<close> block into \<open>[]\<close>, and the health check before it has a
  \<open>catch\<close> of its own.
\<close>

theorem search_failure_returns_empty:
  assumes "answer net c w (Search q limit) = None
           \<or> (\<exists>r. answer net c w (Search q limit) = Some r \<and> \<not> ok r)"
  shows "fst (search net c q limit w) = []"
proof -
  obtain c1 w1 where h: "ensureHealthy net c w = (c1, w1)"
    by (cases "ensureHealthy net c w")
  from assms h ensureHealthy_result(1) [OF h] show ?thesis
    by (auto simp: search_def fetch_def read_json_def checked_def answer_def request_of_def
             split: sum.splits)
qed

theorem search_failure_returns_empty_witness:
  "answer unreachable (new_client (parse None)) \<lparr>requests = [], console = []\<rparr>
     (Search (js ''monorepo'') (Some 3)) = None
   \<and> fst (search unreachable (new_client (parse None)) (js ''monorepo'') (Some 3)
            \<lparr>requests = [], console = []\<rparr>) = []"
proof -
  have h: "answer unreachable (new_client (parse None)) \<lparr>requests = [], console = []\<rparr>
             (Search (js ''monorepo'') (Some 3)) = None"
    by (simp add: answer_def unreachable_def)
  from h search_failure_returns_empty
         [of unreachable "new_client (parse None)" "\<lparr>requests = [], console = []\<rparr>"
             "js ''monorepo''" "Some 3"]
  show ?thesis by blast
qed

text \<open>
  C6. For every identifier: when the transport rejects the DELETE request, or the server
  answers it with a status outside 200-299, \<open>delete\<close> returns false and logs the failure
  (one \<open>console.error\<close> call, \<open>[memory-mem0] Delete error:\<close> with the exception); on a
  2xx answer it returns true and logs nothing. \<open>delete\<close> has no other outcome than a
  boolean.
\<close>

theorem delete_reports_failure:
  "(answer net c w (Delete i) = None \<longrightarrow>
      fst (delete net c i w) = False
      \<and> console (snd (snd (delete net c i w))) = console (snd (ensureHealthy net c w)) @
          [Console ERROR (js ''[memory-mem0] Delete error:'') (Thrown FetchRejected)])
   \<and> (\<forall>r. answer net c w (Delete i) = Some r \<and> \<not> ok r \<longrightarrow>
      fst (delete net c i w) = False
      \<and> console (snd (snd (delete net c i w))) = console (snd (ensureHealthy net c w)) @
          [Console ERROR (js ''[memory-mem0] Delete error:'')
             (Thrown (Error (js ''Delete failed: '' @ statusText r)))])
   \<and> (\<forall>r. answer net c w (Delete i) = Some r \<and> ok r \<longrightarrow>
      fst (delete net c i w) = True
      \<and> console (snd (snd (delete net c i w))) = console (snd (ensureHealthy net c w)))"
proof -
  obtain c1 w1 where h: "ensureHealthy net c w = (c1, w1)"
    by (cases "ensureHealthy net c w")
  from h ensureHealthy_result(1) [OF h] show ?thesis
    by (auto simp: delete_def fetch_def checked_def console_call_def answer_def request_of_def)
qed

theorem delete_reports_failure_witness:
  "answer failing (new_client (parse None)) \<lparr>requests = [], console = []\<rparr> (Delete (js ''m1''))
     = Some \<lparr>status = 500, statusText = js ''Internal Server Error'', json = None\<rparr>
   \<and> \<not> ok \<lparr>status = 500, statusText = js ''Internal Server Error'', json = None\<rparr>
   \<and> fst (delete failing (new_client (parse None)) (js ''m1'') \<lparr>requests = [], console = []\<rparr>) = False
   \<and> last (console (snd (snd (delete failing (new_client (parse None)) (js ''m1'')
          \<lparr>requests = [], console = []\<rparr>)))) =
        Console ERROR (js ''[memory-mem0] Delete error:'')
          (Thrown (Error (js ''Delete failed: Internal Server Error'')))
   \<and> answer reachable (new_client (parse None)) \<lparr>requests = [], console = []\<rparr> (Delete (js ''m1''))
     = Some (ok_response None)
   \<and> ok (ok_response None)
   \<and> fst (delete reachable (new_client (parse None)) (js ''m1'') \<lparr>requests = [], console = []\<rparr>) = True"
proof -
  have a: "answer failing (new_client (parse None)) \<lparr>requests = [], console = []\<rparr> (Delete (js ''m1''))
     = Some \<lparr>status = 500, statusText = js ''Internal Server Error'', json = None\<rparr>"
    by (simp add: answer_def failing_def)
  have b: "\<not> ok \<lparr>status = 500, statusText = js ''Internal Server Error'', json = None\<rparr>"
    by (simp add: ok_def)
  have c: "answer reachable (new_client (parse None)) \<lparr>requests = [], console = []\<rparr>
             (Delete (js ''m1'')) = Some (ok_response None)"
    by (simp add: answer_def reachable_def request_of_def)
  have d: "ok (ok_response None)"
    by (simp add: ok_def ok_response_def)
  from a b delete_reports_failure
         [of failing "new_client (parse None)" "\<lparr>requests = [], console = []\<rparr>" "js ''m1''"]
  have f: "fst (delete failing (new_client (parse None)) (js ''m1'') \<lparr>requests = [], console = []\<rparr>) = False
   \<and> last (console (snd (snd (delete failing (new_client (parse None)) (js ''m1'')
          \<lparr>requests = [], console = []\<rparr>)))) =
        Console ERROR (js ''[memory-mem0] Delete error:'')
          (Thrown (Error (js ''Delete failed: Internal Server Error'')))"
    by (simp add: js_def)
  from c d delete_reports_failure
         [of reachable "new_client (parse None)" "\<lparr>requests = [], console = []\<rparr>" "js ''m1''"]
  have g: "fst (delete reachable (new_client (parse None)) (js ''m1'') \<lparr>requests = [], console = []\<rparr>) = True"
    by simp
  from a b c d f g show ?thesis by (intro conjI) simp_all
qed

section \<open>Post-run capture\<close>

text \<open>
  What a message, and then the whole loop, adds to the trace: for every transport, the
  store calls are those of the messages that pass the three tests, in order.
\<close>

lemma add_result:
  assumes "add net c t a w = (r, c2, w2)"
  shows "config c2 = config c"
    and "requests w2 =
     requests w @ (if healthChecked c then [] else [GetHealth (baseUrl (config c))])
       @ [request_of (config c) (Add t a)]"
proof -
  have p: "perform net (Add t a) (c, w) = (c2, w2)"
    using assms by (simp add: perform_def)
  from perform_result(1) [OF p] show "config c2 = config c" .
  from perform_result(2) [OF p] show "requests w2 =
     requests w @ (if healthChecked c then [] else [GetHealth (baseUrl (config c))])
       @ [request_of (config c) (Add t a)]" .
qed

lemma is_store_request_of_Add: "is_store (request_of cfg (Add t a))"
  by (simp add: request_of_def)

lemma capture_message_result:
  assumes "capture_message net a msg (c, w) = (c2, w2)"
  shows "config c2 = config c \<and>
         (\<exists>extra. requests w2 = requests w @ extra \<and>
            filter is_store extra =
              (if captured msg then [request_of (config c) (Add (or_string (content msg) []) a)]
               else []))"
proof (cases "captured msg")
  case False
  with assms have "(c2, w2) = (c, w)"
    by (auto simp: capture_message_def captured_def Let_def split: if_splits)
  with False show ?thesis by simp
next
  case True
  obtain r where ad: "add net c (or_string (content msg) []) a w = (r, c2, w2)"
    using assms True
    by (cases "add net c (or_string (content msg) []) a w")
       (auto simp: capture_message_def captured_def Let_def split: if_splits)
  from add_result [OF ad] True show ?thesis
    by (simp add: is_store_request_of_Add)
qed

lemma capture_loop_result:
  "config (fst (foldl (\<lambda>s msg. capture_message net a msg s) cw ms)) = config (fst cw) \<and>
   (\<exists>extra. requests (snd (foldl (\<lambda>s msg. capture_message net a msg s) cw ms))
              = requests (snd cw) @ extra \<and>
      filter is_store extra =
        map (\<lambda>m. request_of (config (fst cw)) (Add (or_string (content m) []) a))
          (filter captured ms))"
proof (induction ms arbitrary: cw)
  case Nil
  then show ?case by simp
next
  case (Cons m ms)
  obtain c w where cw: "cw = (c, w)" by (cases cw)
  obtain c2 w2 where st: "capture_message net a m (c, w) = (c2, w2)"
    by (cases "capture_message net a m (c, w)")
  from capture_message_result [OF st]
  obtain e1 where e1: "config c2 = config c" "requests w2 = requests w @ e1"
    "filter is_store e1 =
       (if captured m then [request_of (config c) (Add (or_string (content m) []) a)] else [])"
    by blast
  from Cons.IH [of "(c2, w2)"]
  obtain e2 where e2:
    "config (fst (foldl (\<lambda>s msg. capture_message net a msg s) (c2, w2) ms)) = config c2"
    "requests (snd (foldl (\<lambda>s msg. capture_message net a msg s) (c2, w2) ms)) = requests w2 @ e2"
    "filter is_store e2 =
       map (\<lambda>m. request_of (config c2) (Add (or_string (content m) []) a)) (filter captured ms)"
    by auto
  have "requests (snd (foldl (\<lambda>s msg. capture_message net a msg s) cw (m # ms)))
          = requests (snd cw) @ (e1 @ e2)"
    using e1(2) e2(2) by (simp add: cw st)
  moreover have "filter is_store (e1 @ e2) =
      map (\<lambda>m. request_of (config (fst cw)) (Add (or_string (content m) []) a))
          (filter captured (m # ms))"
    using e1(1,3) e2(3) by (simp add: cw)
  moreover have "config (fst (foldl (\<lambda>s msg. capture_message net a msg s) cw (m # ms)))
      = config (fst cw)"
    using e1(1) e2(1) by (simp add: cw st)
  ultimately show ?case by blast
qed

lemma stores_between_capture_message:
  "stores_between cw (capture_message net a msg cw) =
     (if captured msg then [request_of (config (fst cw)) (Add (or_string (content msg) []) a)]
      else [])"
proof -
  obtain c w where cw: "cw = (c, w)" by (cases cw)
  obtain c2 w2 where st: "capture_message net a msg (c, w) = (c2, w2)"
    by (cases "capture_message net a msg (c, w)")
  from capture_message_result [OF st] show ?thesis
    by (auto simp: stores_between_def cw st)
qed

lemma stores_between_agent_end:
  "stores_between cw (agent_end net (Some ms) a cw) =
     map (\<lambda>m. request_of (config (fst cw)) (Add (or_string (content m) []) a))
       (filter captured ms)"
  using capture_loop_result [of net a cw ms]
  by (auto simp: stores_between_def agent_end_def)

lemma length_trim_le: "length (trim s) \<le> length s"
proof -
  have "length (trim s) \<le> length (dropWhile isWhiteSpace s)"
    unfolding trim_def using length_dropWhile_le [of isWhiteSpace "rev (dropWhile isWhiteSpace s)"]
    by simp
  also have "\<dots> \<le> length s" by (rule length_dropWhile_le)
  finally show ?thesis .
qed


lemma startsWith_iff: "startsWith xs p \<longleftrightarrow> (\<exists>v. xs = p @ v)"
  by (induction xs p rule: startsWith.induct) auto

lemma includes_js_iff: "includes_js t p \<longleftrightarrow> (\<exists>u v. t = u @ p @ v)"
proof (induction t)
  case Nil
  then show ?case by auto
next
  case (Cons x xs)
  show ?case
  proof
    assume "includes_js (x # xs) p"
    then consider "startsWith (x # xs) p" | "includes_js xs p" by auto
    then show "\<exists>u v. x # xs = u @ p @ v"
    proof cases
      case 1
      then obtain v where "x # xs = p @ v" by (auto simp: startsWith_iff)
      then have "x # xs = [] @ p @ v" by simp
      then show ?thesis by blast
    next
      case 2
      with Cons.IH obtain u v where "xs = u @ p @ v" by blast
      then have "x # xs = (x # u) @ p @ v" by simp
      then show ?thesis by blast
    qed
  next
    assume "\<exists>u v. x # xs = u @ p @ v"
    then obtain u v where e: "x # xs = u @ p @ v" by blast
    show "includes_js (x # xs) p"
    proof (cases u)
      case Nil
      with e have "startsWith (x # xs) p" by (auto simp: startsWith_iff)
      then show ?thesis by simp
    next
      case (Cons y u')
      with e have "xs = u' @ p @ v" by simp
      with Cons.IH have "includes_js xs p" by blast
      then show ?thesis by simp
    qed
  qed
qed

text \<open>
  C2, as the code has it. A message of 49 code units, and every message shorter than 50,
  causes no store call. The length that is compared with 50 is the length of the trimmed
  text: a message whose trimmed text is shorter than 50 is skipped, and a user or
  assistant message whose trimmed text has 50 code units or more and whose text does not
  contain the recall marker causes exactly one store call, with the untrimmed text.
\<close>

theorem capture_length_threshold:
  "(length (or_string (content msg) []) = 49 \<longrightarrow>
      stores_between cw (capture_message net a msg cw) = [])
   \<and> (length (or_string (content msg) []) < 50 \<longrightarrow>
      stores_between cw (capture_message net a msg cw) = [])
   \<and> (length (trim (or_string (content msg) [])) < 50 \<longrightarrow>
      stores_between cw (capture_message net a msg cw) = [])
   \<and> ((role msg = js ''user'' \<or> role msg = js ''assistant'')
       \<and> 50 \<le> length (trim (or_string (content msg) []))
       \<and> \<not> includes_js (or_string (content msg) []) (js ''<relevant-memories>'') \<longrightarrow>
      stores_between cw (capture_message net a msg cw) =
        [request_of (config (fst cw)) (Add (or_string (content msg) []) a)])"
  using length_trim_le [of "or_string (content msg) []"]
  by (auto simp: stores_between_capture_message captured_def)

theorem capture_length_threshold_witness:
  "length (or_string (content (user_says forty_nine)) []) = 49
   \<and> stores_between (start (parse None))
        (capture_message reachable None (user_says forty_nine) (start (parse None))) = []
   \<and> role (user_says fifty) = js ''user''
   \<and> length (trim (or_string (content (user_says fifty)) [])) = 50
   \<and> \<not> includes_js (or_string (content (user_says fifty)) []) (js ''<relevant-memories>'')
   \<and> stores_between (start (parse None))
        (capture_message reachable None (user_says fifty) (start (parse None))) =
        [PostMemories (js ''http://127.0.0.1:8420'')
           \<lparr>body_content = fifty, user_id = js ''openclaw'', body_metadata = None\<rparr>]"
proof -
  have a: "length (or_string (content (user_says forty_nine)) []) = 49"
    by (simp add: user_says_def forty_nine_def or_string_def js_def)
  have b: "role (user_says fifty) = js ''user''"
    by (simp add: user_says_def)
  have c: "length (trim (or_string (content (user_says fifty)) [])) = 50"
    by (simp add: user_says_def fifty_def or_string_def js_def trim_def isWhiteSpace_def)
  have d: "\<not> includes_js (or_string (content (user_says fifty)) []) (js ''<relevant-memories>'')"
    by (simp add: user_says_def fifty_def or_string_def js_def)
  have e: "request_of (config (fst (start (parse None))))
             (Add (or_string (content (user_says fifty)) []) None) =
           PostMemories (js ''http://127.0.0.1:8420'')
             \<lparr>body_content = fifty, user_id = js ''openclaw'', body_metadata = None\<rparr>"
    by (simp add: request_of_def start_def new_client_def parse_def empty_object_def
          or_string_def user_says_def fifty_def js_def)
  from a b c d e
    capture_length_threshold [of "user_says forty_nine" "start (parse None)" reachable None]
    capture_length_threshold [of "user_says fifty" "start (parse None)" reachable None]
  show ?thesis by simp
qed

text \<open>
  C2 as stated fails: a user message of 50 code units without the marker, 49 letters
  and a final line feed, causes no store call, because \<open>text.trim().length\<close> is 49.
\<close>

theorem capture_skips_padded_fifty_counterexample:
  "role (user_says (forty_nine @ [10])) = js ''user''
   \<and> length (or_string (content (user_says (forty_nine @ [10]))) []) = 50
   \<and> \<not> includes_js (or_string (content (user_says (forty_nine @ [10]))) [])
         (js ''<relevant-memories>'')
   \<and> stores_between (start (parse None))
        (capture_message reachable None (user_says (forty_nine @ [10])) (start (parse None))) = []"
  by (simp add: user_says_def forty_nine_def or_string_def js_def trim_def isWhiteSpace_def
        capture_message_def stores_between_def start_def)

text \<open>
  C4. A message whose text contains \<open><relevant-memories>\<close> leaves the client and the
  trace as they were, whatever its length; and in a whole run of the handler no store
  call carries a text that contains the marker.
\<close>

theorem marker_never_stored:
  "(includes_js (or_string (content msg) []) (js ''<relevant-memories>'') \<longrightarrow>
      capture_message net a msg cw = cw
      \<and> stores_between cw (capture_message net a msg cw) = [])
   \<and> (\<forall>r \<in> set (stores_between cw (agent_end net ev a cw)).
        \<exists>b body. r = PostMemories b body
          \<and> \<not> includes_js (body_content body) (js ''<relevant-memories>''))"
proof -
  have one: "includes_js (or_string (content msg) []) (js ''<relevant-memories>'') \<longrightarrow>
      capture_message net a msg cw = cw
      \<and> stores_between cw (capture_message net a msg cw) = []"
    by (simp add: capture_message_def stores_between_def)
  have run: "\<forall>r \<in> set (stores_between cw (agent_end net ev a cw)).
        \<exists>b body. r = PostMemories b body
          \<and> \<not> includes_js (body_content body) (js ''<relevant-memories>'')"
  proof (cases ev)
    case None
    then show ?thesis by (simp add: agent_end_def stores_between_def)
  next
    case (Some ms)
    then show ?thesis
      by (auto simp: stores_between_agent_end request_of_def captured_def)
  qed
  from one run show ?thesis by blast
qed

theorem marker_never_stored_witness:
  "includes_js (or_string (content (user_says recalled)) []) (js ''<relevant-memories>'')
   \<and> 50 \<le> length (trim (or_string (content (user_says recalled)) []))
   \<and> stores_between (start (parse None))
        (capture_message reachable None (user_says recalled) (start (parse None))) = []
   \<and> stores_between (start (parse None))
        (agent_end reachable (Some [user_says recalled, user_says sixty]) None (start (parse None))) =
        [PostMemories (js ''http://127.0.0.1:8420'')
           \<lparr>body_content = sixty, user_id = js ''openclaw'', body_metadata = None\<rparr>]"
proof -
  have a: "includes_js (or_string (content (user_says recalled)) []) (js ''<relevant-memories>'')"
    by (simp add: user_says_def recalled_def or_string_def js_def)
  have b: "50 \<le> length (trim (or_string (content (user_says recalled)) []))"
    by (simp add: user_says_def recalled_def or_string_def js_def trim_def isWhiteSpace_def)
  from a marker_never_stored [of "user_says recalled" reachable None "start (parse None)" None]
  have c: "stores_between (start (parse None))
        (capture_message reachable None (user_says recalled) (start (parse None))) = []"
    by blast
  have d: "filter captured [user_says recalled, user_says sixty] = [user_says sixty]"
    by (simp add: captured_def user_says_def recalled_def sixty_def or_string_def js_def
          trim_def isWhiteSpace_def)
  have e: "stores_between (start (parse None))
        (agent_end reachable (Some [user_says recalled, user_says sixty]) None (start (parse None))) =
        [PostMemories (js ''http://127.0.0.1:8420'')
           \<lparr>body_content = sixty, user_id = js ''openclaw'', body_metadata = None\<rparr>]"
    unfolding stores_between_agent_end d
    by (simp add: request_of_def start_def new_client_def parse_def empty_object_def
          or_string_def user_says_def)
  from a b c e show ?thesis by (intro conjI)
qed

text \<open>
  C7. For every transport, also one that fails some or all of the store calls, the
  handler issues one store call for each message that passes the tests, in order; a
  store call that the transport rejects or the server refuses returns \<open>null\<close> (here
  \<open>None\<close>), so the loop goes on to the next message.
\<close>

theorem capture_stores_independently:
  "stores_between cw (agent_end net (Some ms) a cw) =
     map (\<lambda>m. request_of (config (fst cw)) (Add (or_string (content m) []) a))
       (filter captured ms)
   \<and> (\<forall>c w t. answer net c w (Add t a) = None
                 \<or> (\<exists>r. answer net c w (Add t a) = Some r \<and> \<not> ok r) \<longrightarrow>
        fst (add net c t a w) = None)"
proof -
  have "fst (add net c t a w) = None"
    if "answer net c w (Add t a) = None \<or> (\<exists>r. answer net c w (Add t a) = Some r \<and> \<not> ok r)"
    for c w t
  proof -
    obtain c1 w1 where h: "ensureHealthy net c w = (c1, w1)"
      by (cases "ensureHealthy net c w")
    from that h ensureHealthy_result(1) [OF h] show ?thesis
      by (auto simp: add_def fetch_def read_json_def checked_def answer_def request_of_def
               split: sum.splits)
  qed
  then show ?thesis
    by (simp add: stores_between_agent_end)
qed

theorem capture_stores_independently_witness:
  "answer first_store_rejected (fst (start (parse None))) (snd (start (parse None)))
     (Add fifty (Some (js ''agent-7''))) = None
   \<and> fst (add first_store_rejected (fst (start (parse None))) fifty (Some (js ''agent-7''))
            (snd (start (parse None)))) = None
   \<and> stores_between (start (parse None))
       (agent_end first_store_rejected (Some [user_says fifty, user_says forty_nine, user_says sixty])
          (Some (js ''agent-7'')) (start (parse None))) =
       [PostMemories (js ''http://127.0.0.1:8420'')
          \<lparr>body_content = fifty, user_id = js ''openclaw'', body_metadata = Some (js ''agent-7'')\<rparr>,
        PostMemories (js ''http://127.0.0.1:8420'')
          \<lparr>body_content = sixty, user_id = js ''openclaw'', body_metadata = Some (js ''agent-7'')\<rparr>]"
proof -
  have a: "answer first_store_rejected (fst (start (parse None))) (snd (start (parse None)))
     (Add fifty (Some (js ''agent-7''))) = None"
    by (simp add: answer_def first_store_rejected_def request_of_def start_def new_client_def
          ensureHealthy_def fetch_def reachable_def ok_response_def ok_def console_call_def)
  have b: "filter captured [user_says fifty, user_says forty_nine, user_says sixty]
             = [user_says fifty, user_says sixty]"
    by (simp add: captured_def user_says_def fifty_def forty_nine_def sixty_def or_string_def
          js_def trim_def isWhiteSpace_def)
  have c: "js ''agent-7'' \<noteq> []"
    by (simp add: js_def)
  from a b c
    capture_stores_independently
      [of "start (parse None)" first_store_rejected
          "[user_says fifty, user_says forty_nine, user_says sixty]" "Some (js ''agent-7'')"]
  show ?thesis
    by (simp add: request_of_def parse_def empty_object_def or_string_def user_says_def
          start_def new_client_def)
qed

section \<open>The store tool\<close>

text \<open>
  C8. Storing a content string with no agent id adds exactly one POST to the trace, to
  \<open>/memories\<close> of the configured base URL, whose body has the content, the configured
  user id and no metadata (so no \<open>agent_id\<close> key). When the server answers that POST
  with a 2xx status and an \<open>AddResponse\<close> whose \<open>success\<close> is true, the tool's text is
  \<open>Stored in memory: \<close> followed by the stored-memory texts of the response, joined by
  a comma and a space.
\<close>

theorem store_without_agent_id:
  "stores_between (c, w) (snd (memory_store net c t None w)) =
     [PostMemories (baseUrl (config c))
        \<lparr>body_content = t, user_id = userId (config c), body_metadata = None\<rparr>]
   \<and> (\<forall>r d. answer net c w (Add t None) = Some r \<and> ok r \<and> json r = Some (AddData d) \<and> success d
         \<longrightarrow> fst (memory_store net c t None w) =
               js ''Stored in memory: '' @ join (js '', '') (map result_memory (results d)))"
proof -
  obtain res c2 w2 where ad: "add net c t None w = (res, c2, w2)"
    by (cases "add net c t None w")
  have sn: "snd (memory_store net c t None w) = (c2, w2)"
    using ad by (simp add: memory_store_def split: option.splits payload.splits)
  have one: "stores_between (c, w) (snd (memory_store net c t None w)) =
     [PostMemories (baseUrl (config c))
        \<lparr>body_content = t, user_id = userId (config c), body_metadata = None\<rparr>]"
    using add_result(2) [OF ad]
    by (simp add: sn stores_between_def request_of_def)
  have out: "fst (memory_store net c t None w) =
               js ''Stored in memory: '' @ join (js '', '') (map result_memory (results d))"
    if "answer net c w (Add t None) = Some r" "ok r" "json r = Some (AddData d)" "success d"
    for r d
  proof -
    obtain c1 w1 where h: "ensureHealthy net c w = (c1, w1)"
      by (cases "ensureHealthy net c w")
    from that h ensureHealthy_result(1) [OF h] have "res = Some (AddData d)"
      using ad
      by (auto simp: add_def fetch_def read_json_def checked_def answer_def request_of_def
               split: sum.splits)
    with ad that(4) show ?thesis by (simp add: memory_store_def)
  qed
  from one out show ?thesis by blast
qed

theorem store_without_agent_id_witness:
  "stores_between (new_client (parse None), \<lparr>requests = [], console = []\<rparr>)
     (snd (memory_store reachable (new_client (parse None))
             (js ''Remember: the build uses a monorepo'') None \<lparr>requests = [], console = []\<rparr>)) =
     [PostMemories (js ''http://127.0.0.1:8420'')
        \<lparr>body_content = js ''Remember: the build uses a monorepo'', user_id = js ''openclaw'',
         body_metadata = None\<rparr>]
   \<and> fst (memory_store reachable (new_client (parse None))
            (js ''Remember: the build uses a monorepo'') None \<lparr>requests = [], console = []\<rparr>) =
       js ''Stored in memory: Remember: the build uses a monorepo''"
proof -
  have a: "answer reachable (new_client (parse None)) \<lparr>requests = [], console = []\<rparr>
             (Add (js ''Remember: the build uses a monorepo'') None) =
           Some (serve (PostMemories (js ''http://127.0.0.1:8420'')
             \<lparr>body_content = js ''Remember: the build uses a monorepo'', user_id = js ''openclaw'',
              body_metadata = None\<rparr>))"
    by (simp add: answer_def reachable_def request_of_def new_client_def parse_def
          empty_object_def or_string_def)
  have b: "ok (serve (PostMemories (js ''http://127.0.0.1:8420'')
             \<lparr>body_content = js ''Remember: the build uses a monorepo'', user_id = js ''openclaw'',
              body_metadata = None\<rparr>))"
    by (simp add: ok_def ok_response_def)
  from a b
    store_without_agent_id
      [of "new_client (parse None)" "\<lparr>requests = [], console = []\<rparr>" reachable
          "js ''Remember: the build uses a monorepo''"]
  show ?thesis
    by (simp add: new_client_def parse_def empty_object_def or_string_def ok_response_def js_def)
qed

section \<open>Pre-run recall\<close>

lemma score_or_0_Some: "score m = Some x \<Longrightarrow> score_or_0 m = x"
  by (simp add: score_or_0_def or_number_def)

lemma score_or_0_None: "score m = None \<Longrightarrow> score_or_0 m = 0"
  by (simp add: score_or_0_def or_number_def)

lemma before_agent_start_result:
  assumes "trim (or_string p []) \<noteq> []"
  shows "fst (before_agent_start tf net c p w) =
     (if relevant (recallThreshold (config c))
           (fst (search net c (or_string p []) (Some (recallLimit (config c))) w)) = []
      then None
      else Some (context_block tf (relevant (recallThreshold (config c))
           (fst (search net c (or_string p []) (Some (recallLimit (config c))) w)))))"
  using assms
  by (cases "search net c (or_string p []) (Some (recallLimit (config c))) w")
     (simp add: before_agent_start_def Let_def)

text \<open>
  C3, as the code has it. For every non-blank prompt the handler returns a context block
  if and only if some search result has a score at or above the configured threshold,
  an absent score counting as 0, as line 391 reads it (\<open>m.score || 0\<close>); when the
  threshold is above 0, or every result carries a score, this is the score field
  itself. With threshold 0.4 and two results scored 0.87 and 0.2, the block is the
  opening tag, the heading, the one line of the first result and the closing tag.
\<close>

theorem recall_injects_iff:
  assumes "trim (or_string p []) \<noteq> []"
  shows "(fst (before_agent_start tf net c p w) \<noteq> None \<longleftrightarrow>
            (\<exists>m \<in> set (fst (search net c (or_string p []) (Some (recallLimit (config c))) w)).
               recallThreshold (config c) \<le> score_or_0 m))
       \<and> (0 < recallThreshold (config c)
            \<or> (\<forall>m \<in> set (fst (search net c (or_string p []) (Some (recallLimit (config c))) w)).
                  score m \<noteq> None) \<longrightarrow>
          (fst (before_agent_start tf net c p w) \<noteq> None \<longleftrightarrow>
            (\<exists>m \<in> set (fst (search net c (or_string p []) (Some (recallLimit (config c))) w)).
               \<exists>x. score m = Some x \<and> recallThreshold (config c) \<le> x)))
       \<and> (\<forall>m1 m2. fst (search net c (or_string p []) (Some (recallLimit (config c))) w) = [m1, m2]
              \<and> score m1 = Some (87 / 100) \<and> score m2 = Some (2 / 10)
              \<and> recallThreshold (config c) = 4 / 10 \<longrightarrow>
            fst (before_agent_start tf net c p w) =
              Some (js ''<relevant-memories>'' @ [10]
                    @ js ''Relevant facts from long-term memory:'' @ [10]
                    @ memory_line tf m1 @ [10] @ js ''</relevant-memories>''))"
proof -
  let ?ms = "fst (search net c (or_string p []) (Some (recallLimit (config c))) w)"
  let ?t = "recallThreshold (config c)"
  note r = before_agent_start_result [OF assms, of tf net c w]
  have iff: "fst (before_agent_start tf net c p w) \<noteq> None \<longleftrightarrow>
               (\<exists>m \<in> set ?ms. ?t \<le> score_or_0 m)"
    unfolding r by (auto simp: relevant_def filter_empty_conv)
  have scored: "(\<exists>m \<in> set ?ms. ?t \<le> score_or_0 m) \<longleftrightarrow>
                (\<exists>m \<in> set ?ms. \<exists>x. score m = Some x \<and> ?t \<le> x)"
    if d: "0 < ?t \<or> (\<forall>m \<in> set ?ms. score m \<noteq> None)"
  proof
    assume "\<exists>m \<in> set ?ms. ?t \<le> score_or_0 m"
    then obtain m where m: "m \<in> set ?ms" "?t \<le> score_or_0 m" by blast
    have "score m \<noteq> None"
    proof
      assume n: "score m = None"
      then have "score_or_0 m = 0" by (rule score_or_0_None)
      with m(2) have "?t \<le> 0" by simp
      with d n m(1) show False by auto
    qed
    then obtain x where x: "score m = Some x" by blast
    with m(2) have "?t \<le> x" by (simp add: score_or_0_Some)
    with m(1) x show "\<exists>m \<in> set ?ms. \<exists>x. score m = Some x \<and> ?t \<le> x" by blast
  next
    assume "\<exists>m \<in> set ?ms. \<exists>x. score m = Some x \<and> ?t \<le> x"
    then obtain m x where m: "m \<in> set ?ms" "score m = Some x" "?t \<le> x" by blast
    from m(2,3) have "?t \<le> score_or_0 m" by (simp add: score_or_0_Some)
    with m(1) show "\<exists>m \<in> set ?ms. ?t \<le> score_or_0 m" by blast
  qed
  have ex: "fst (before_agent_start tf net c p w) =
              Some (js ''<relevant-memories>'' @ [10]
                    @ js ''Relevant facts from long-term memory:'' @ [10]
                    @ memory_line tf m1 @ [10] @ js ''</relevant-memories>'')"
    if "?ms = [m1, m2]" "score m1 = Some (87 / 100)" "score m2 = Some (2 / 10)" "?t = 4 / 10"
    for m1 m2
  proof -
    have s1: "?t \<le> score_or_0 m1"
      unfolding that(4) score_or_0_Some [OF that(2)] by simp
    have s2: "\<not> ?t \<le> score_or_0 m2"
      unfolding that(4) score_or_0_Some [OF that(3)] by simp
    have "relevant ?t ?ms = [m1]"
      using that(1) s1 s2 by (simp add: relevant_def)
    then show ?thesis
      unfolding r by (simp add: context_block_def)
  qed
  from iff scored ex show ?thesis by blast
qed

theorem recall_injects_iff_witness:
  "trim (or_string (Some (js ''What does the build use?'')) []) \<noteq> []
   \<and> fst (before_agent_start fixed2 reachable (new_client (parse None))
            (Some (js ''What does the build use?'')) \<lparr>requests = [], console = []\<rparr>) =
       Some (js ''<relevant-memories>'' @ [10]
             @ js ''Relevant facts from long-term memory:'' @ [10]
             @ js ''- Some stored fact [score: 0.87]'' @ [10] @ js ''</relevant-memories>'')"
proof -
  have a: "trim (or_string (Some (js ''What does the build use?'')) []) \<noteq> []"
    by (simp add: or_string_def js_def trim_def isWhiteSpace_def)
  have b: "fst (search reachable (new_client (parse None))
              (or_string (Some (js ''What does the build use?'')) [])
              (Some (recallLimit (config (new_client (parse None)))))
              \<lparr>requests = [], console = []\<rparr>) = two_results"
    by (simp add: search_def ensureHealthy_def fetch_def reachable_def new_client_def
          ok_response_def ok_def read_json_def checked_def memories_of_def console_call_def)
  have c: "recallThreshold (config (new_client (parse None))) = 4 / 10"
    by (simp add: new_client_def parse_def empty_object_def or_number_def)
  have d: "memory_line fixed2 (hd two_results) = js ''- Some stored fact [score: 0.87]''"
    by (simp add: memory_line_def two_results_def fixed2_def digit_def js_def)
  from a b c d
    recall_injects_iff [OF a, of fixed2 reachable "new_client (parse None)"
      "\<lparr>requests = [], console = []\<rparr>"]
  show ?thesis
    by (simp add: two_results_def)
qed

text \<open>
  C3 as stated fails: with a configured threshold of -1, which \<open>parse\<close> keeps, and a
  search that returns one result without a score, no result has a score at or above the
  threshold, and the handler returns a block, whose one line prints the score as
  \<open>undefined\<close>.
\<close>

theorem recall_injects_unscored_counterexample:
  "recallThreshold (config (new_client (parse (Some below_zero)))) = - 1
   \<and> trim (or_string (Some (js ''What does the build use?'')) []) \<noteq> []
   \<and> fst (search only_unscored (new_client (parse (Some below_zero)))
            (or_string (Some (js ''What does the build use?'')) [])
            (Some (recallLimit (config (new_client (parse (Some below_zero))))))
            \<lparr>requests = [], console = []\<rparr>) = [unscored]
   \<and> score unscored = None
   \<and> fst (before_agent_start fixed2 only_unscored (new_client (parse (Some below_zero)))
            (Some (js ''What does the build use?'')) \<lparr>requests = [], console = []\<rparr>) =
       Some (js ''<relevant-memories>'' @ [10]
             @ js ''Relevant facts from long-term memory:'' @ [10]
             @ js ''- A fact without a score [score: undefined]'' @ [10]
             @ js ''</relevant-memories>'')"
proof -
  have a: "recallThreshold (config (new_client (parse (Some below_zero)))) = - 1"
    by (simp add: new_client_def parse_def below_zero_def or_number_def)
  have b: "trim (or_string (Some (js ''What does the build use?'')) []) \<noteq> []"
    by (simp add: or_string_def js_def trim_def isWhiteSpace_def)
  have c: "fst (search only_unscored (new_client (parse (Some below_zero)))
            (or_string (Some (js ''What does the build use?'')) [])
            (Some (recallLimit (config (new_client (parse (Some below_zero))))))
            \<lparr>requests = [], console = []\<rparr>) = [unscored]"
    by (simp add: search_def ensureHealthy_def fetch_def only_unscored_def new_client_def
          ok_response_def ok_def read_json_def checked_def memories_of_def console_call_def)
  have d: "score unscored = None"
    by (simp add: unscored_def)
  have e: "relevant (- 1) [unscored] = [unscored]"
    by (simp add: relevant_def score_or_0_def or_number_def unscored_def)
  have f: "memory_line fixed2 unscored = js ''- A fact without a score [score: undefined]''"
    by (simp add: memory_line_def unscored_def js_def)
  have g: "fst (before_agent_start fixed2 only_unscored (new_client (parse (Some below_zero)))
            (Some (js ''What does the build use?'')) \<lparr>requests = [], console = []\<rparr>) =
       Some (context_block fixed2 [unscored])"
    unfolding before_agent_start_result [OF b] a c e by simp
  from a b c d g f show ?thesis by (simp add: context_block_def)
qed

text \<open>
  C10. A result without a score is compared as 0: it passes the filter exactly when the
  threshold is at most 0. So for a threshold above 0 it is never among the results the
  block is made of: every result in a returned block carries a score.
\<close>

theorem unscored_never_injected:
  "(score m = None \<longrightarrow> score_or_0 m = 0)
   \<and> (score m = None \<longrightarrow> (m \<in> set (relevant t ms) \<longleftrightarrow> m \<in> set ms \<and> t \<le> 0))
   \<and> (0 < t \<and> score m = None \<longrightarrow> m \<notin> set (relevant t ms))
   \<and> (0 < recallThreshold (config c) \<and> fst (before_agent_start tf net c p w) = Some b \<longrightarrow>
        (\<exists>rel. b = context_block tf rel \<and> rel \<noteq> []
           \<and> set rel \<subseteq> set (fst (search net c (or_string p []) (Some (recallLimit (config c))) w))
           \<and> (\<forall>m \<in> set rel. score m \<noteq> None)))"
proof -
  have z: "score m = None \<longrightarrow> score_or_0 m = 0"
    by (simp add: score_or_0_None)
  have f: "score m = None \<longrightarrow> (m \<in> set (relevant t ms) \<longleftrightarrow> m \<in> set ms \<and> t \<le> 0)"
    by (auto simp: relevant_def score_or_0_None)
  have n: "0 < t \<and> score m = None \<longrightarrow> m \<notin> set (relevant t ms)"
    by (auto simp: relevant_def score_or_0_None)
  have h: "\<exists>rel. b = context_block tf rel \<and> rel \<noteq> []
           \<and> set rel \<subseteq> set (fst (search net c (or_string p []) (Some (recallLimit (config c))) w))
           \<and> (\<forall>m \<in> set rel. score m \<noteq> None)"
    if pos: "0 < recallThreshold (config c)"
      and some: "fst (before_agent_start tf net c p w) = Some b"
  proof -
    let ?ms = "fst (search net c (or_string p []) (Some (recallLimit (config c))) w)"
    let ?rel = "relevant (recallThreshold (config c)) ?ms"
    have nb: "trim (or_string p []) \<noteq> []"
      using some by (auto simp: before_agent_start_def Let_def)
    from some before_agent_start_result [OF nb, of tf net c w]
    have b: "b = context_block tf ?rel" and ne: "?rel \<noteq> []"
      by (auto split: if_splits)
    have sub: "set ?rel \<subseteq> set ?ms" by (auto simp: relevant_def)
    have sc: "\<forall>m \<in> set ?rel. score m \<noteq> None"
    proof
      fix m
      assume m: "m \<in> set ?rel"
      show "score m \<noteq> None"
      proof
        assume "score m = None"
        then have "score_or_0 m = 0" by (rule score_or_0_None)
        with m pos show False by (simp add: relevant_def)
      qed
    qed
    from b ne sub sc show ?thesis by blast
  qed
  from z f n h show ?thesis by blast
qed

theorem unscored_never_injected_witness:
  "score unscored = None
   \<and> 0 < recallThreshold (config (new_client (parse None)))
   \<and> unscored \<notin> set (relevant (recallThreshold (config (new_client (parse None))))
                       (unscored # two_results))
   \<and> fst (before_agent_start fixed2 unscored_server (new_client (parse None))
            (Some (js ''What does the build use?'')) \<lparr>requests = [], console = []\<rparr>) =
       Some (context_block fixed2 [hd two_results])"
proof -
  have a: "score unscored = None"
    by (simp add: unscored_def)
  have b: "0 < recallThreshold (config (new_client (parse None)))"
    by (simp add: new_client_def parse_def empty_object_def or_number_def)
  have c: "fst (before_agent_start fixed2 unscored_server (new_client (parse None))
            (Some (js ''What does the build use?'')) \<lparr>requests = [], console = []\<rparr>) =
       Some (context_block fixed2 [hd two_results])"
    by (simp add: before_agent_start_def or_string_def js_def trim_def isWhiteSpace_def
          search_def ensureHealthy_def fetch_def unscored_server_def new_client_def
          ok_response_def ok_def read_json_def checked_def memories_of_def console_call_def
          parse_def empty_object_def or_number_def relevant_def score_or_0_def
          unscored_def two_results_def)
  from a b c
    unscored_never_injected
      [of unscored "recallThreshold (config (new_client (parse None)))" "unscored # two_results"
          "new_client (parse None)" fixed2 unscored_server "Some (js ''What does the build use?'')"
          "\<lparr>requests = [], console = []\<rparr>" "context_block fixed2 [hd two_results]"]
  show ?thesis by blast
qed

section \<open>Configuration parsing\<close>

lemma parse_fields:
  "baseUrl (parse (Some v)) = or_string (v_baseUrl v) (js ''http://127.0.0.1:8420'')"
  "userId (parse (Some v)) = or_string (v_userId v) (js ''openclaw'')"
  "autoCapture (parse (Some v)) = (v_autoCapture v \<noteq> Some False)"
  "autoRecall (parse (Some v)) = (v_autoRecall v \<noteq> Some False)"
  "recallLimit (parse (Some v)) = or_number (v_recallLimit v) 5"
  "recallThreshold (parse (Some v)) = or_number (v_recallThreshold v) (4 / 10)"
  by (simp_all add: parse_def)

text \<open>
  C9, as the code has it. The four fields defaulted with \<open>||\<close> take the built-in
  default for a falsy supplied value as for a missing one: a \<open>recallThreshold\<close> of 0
  becomes 0.4, a \<open>recallLimit\<close> of 0 becomes 5, an empty \<open>userId\<close> becomes
  \<open>openclaw\<close> and an empty \<open>baseUrl\<close> the local address, so some supplied
  configuration is not the effective one. The two flags are read with \<open>!== false\<close>: a
  supplied boolean is kept, \<open>false\<close> included, and only a missing flag becomes
  \<open>true\<close>. A truthy supplied value is kept in every field.
\<close>

theorem parse_replaces_falsy:
  "(v_recallThreshold v = Some 0 \<longrightarrow> recallThreshold (parse (Some v)) = 4 / 10)
   \<and> (v_recallLimit v = Some 0 \<longrightarrow> recallLimit (parse (Some v)) = 5)
   \<and> (v_userId v = Some [] \<longrightarrow> userId (parse (Some v)) = js ''openclaw'')
   \<and> (\<forall>b. v_autoCapture v = Some b \<longrightarrow> autoCapture (parse (Some v)) = b)
   \<and> (\<forall>b. v_autoRecall v = Some b \<longrightarrow> autoRecall (parse (Some v)) = b)
   \<and> (v_baseUrl v = Some [] \<longrightarrow> baseUrl (parse (Some v)) = js ''http://127.0.0.1:8420'')
   \<and> (v_recallThreshold v = None \<longrightarrow> recallThreshold (parse (Some v)) = 4 / 10)
   \<and> (v_recallLimit v = None \<longrightarrow> recallLimit (parse (Some v)) = 5)
   \<and> (v_userId v = None \<longrightarrow> userId (parse (Some v)) = js ''openclaw'')
   \<and> (v_baseUrl v = None \<longrightarrow> baseUrl (parse (Some v)) = js ''http://127.0.0.1:8420'')
   \<and> (v_autoCapture v = None \<longrightarrow> autoCapture (parse (Some v)))
   \<and> (v_autoRecall v = None \<longrightarrow> autoRecall (parse (Some v)))
   \<and> (\<forall>x. v_recallThreshold v = Some x \<and> x \<noteq> 0 \<longrightarrow> recallThreshold (parse (Some v)) = x)
   \<and> (\<forall>x. v_recallLimit v = Some x \<and> x \<noteq> 0 \<longrightarrow> recallLimit (parse (Some v)) = x)
   \<and> (\<forall>s. v_userId v = Some s \<and> s \<noteq> [] \<longrightarrow> userId (parse (Some v)) = s)
   \<and> (\<forall>s. v_baseUrl v = Some s \<and> s \<noteq> [] \<longrightarrow> baseUrl (parse (Some v)) = s)
   \<and> (\<exists>u x. v_recallThreshold u = Some x \<and> recallThreshold (parse (Some u)) \<noteq> x)"
proof -
  have "v_recallThreshold zeroed = Some 0 \<and> recallThreshold (parse (Some zeroed)) \<noteq> 0"
    by (simp add: zeroed_def parse_fields or_number_def)
  then have ex: "\<exists>u x. v_recallThreshold u = Some x \<and> recallThreshold (parse (Some u)) \<noteq> x"
    by blast
  show ?thesis
    by (intro conjI allI impI ex; simp add: parse_fields or_number_def or_string_def)
qed

theorem parse_replaces_falsy_witness:
  "v_recallThreshold zeroed = Some 0 \<and> recallThreshold (parse (Some zeroed)) = 4 / 10
   \<and> v_recallLimit zeroed = Some 0 \<and> recallLimit (parse (Some zeroed)) = 5
   \<and> v_userId zeroed = Some [] \<and> userId (parse (Some zeroed)) = js ''openclaw''
   \<and> v_autoCapture zeroed = Some False \<and> autoCapture (parse (Some zeroed)) = False"
proof -
  have a: "v_recallThreshold zeroed = Some 0" and b: "v_recallLimit zeroed = Some 0"
    and c: "v_userId zeroed = Some []" and d: "v_autoCapture zeroed = Some False"
    by (simp_all add: zeroed_def)
  note t = parse_replaces_falsy [of zeroed]
  note t1 = t [THEN conjunct1]
  note t2 = t [THEN conjunct2, THEN conjunct1]
  note t3 = t [THEN conjunct2, THEN conjunct2, THEN conjunct1]
  note t4 = t [THEN conjunct2, THEN conjunct2, THEN conjunct2, THEN conjunct1]
  from a t1 have 1: "recallThreshold (parse (Some zeroed)) = 4 / 10" by (rule rev_mp)
  from b t2 have 2: "recallLimit (parse (Some zeroed)) = 5" by (rule rev_mp)
  from c t3 have 3: "userId (parse (Some zeroed)) = js ''openclaw''" by (rule rev_mp)
  from d t4 [THEN spec, of False] have 4: "autoCapture (parse (Some zeroed)) = False"
    by (rule rev_mp)
  from a 1 b 2 c 3 d 4 show ?thesis by (intro conjI)
qed

text \<open>
  C9 as stated fails for the flags: a supplied \<open>autoCapture: false\<close> is a falsy supplied
  value, and it is kept, where the built-in default is \<open>true\<close>.
\<close>

theorem parse_keeps_false_counterexample:
  "v_autoCapture zeroed = Some False
   \<and> autoCapture (parse (Some zeroed)) = False
   \<and> autoCapture (parse None) = True"
  by (simp add: zeroed_def parse_def empty_object_def)

end
